theory Spec2Isabelle
  imports Complex_Main
begin

section \<open>Service descriptors of the supervisor (mindsdb/__main__.py)\<close>

text \<open>
  The handle of a subprocess, as far as the supervisor reads it: its process id
  (\<open>None\<close> as long as the handle has not been started) and its exit code (\<open>None\<close>
  until the handle has collected the exit of the process), as in Python's
  multiprocessing.
\<close>

record process =
  pid :: "nat option"
  exitcode :: "int option"

text \<open>
  The dataclass \<open>TrunkProcessData\<close>. The callable \<open>entrypoint\<close> is opaque to the
  supervisor and is left out; the private fields \<open>_restart_count\<close> and
  \<open>_restarts_time\<close> lose their leading underscore.
\<close>

record TrunkProcessData =
  name :: string
  need_to_run :: bool
  port :: "int option"
  process :: "process option"
  started :: bool
  args :: "bool list option"
  restart_on_failure :: bool
  max_restart_count :: int
  max_restart_interval_seconds :: int
  restart_count :: int
  restarts_time :: "int list"

datatype error = AttributeError | TypeError | NoSuchProcess | KeyboardInterrupt | OtherException

text \<open>\<open>signal.SIGKILL.value\<close>\<close>

definition SIGKILL :: int where
  "SIGKILL = 9"

text \<open>
  \<open>TrunkProcessData.request_restart_attempt\<close>. The reading of the clock,
  \<open>int(time.time())\<close>, is the first argument; the method mutates the descriptor, so the
  model returns the answer together with the descriptor after the call.
\<close>

definition request_restart_attempt :: "int \<Rightarrow> TrunkProcessData \<Rightarrow> bool \<times> TrunkProcessData" where
  "request_restart_attempt current_time_seconds d =
     (if max_restart_count d = 0 then (True, d)
      else
        let d1 = d\<lparr>restarts_time := restarts_time d @ [current_time_seconds]\<rparr>;
            d2 = (if max_restart_interval_seconds d1 > 0
                  then d1\<lparr>restarts_time :=
                         filter (\<lambda>x. x \<ge> current_time_seconds - max_restart_interval_seconds d1)
                           (restarts_time d1)\<rparr>
                  else d1)
        in if int (length (restarts_time d2)) > max_restart_count d2 then (False, d2)
           else (True, d2))"

text \<open>
  The property \<open>TrunkProcessData.should_restart\<close>. It reads \<open>config.is_cloud\<close> and
  \<open>sys.platform\<close>, which are arguments here. On linux and darwin the conjunction
  short-circuits: the process handle is read only when \<open>restart_on_failure\<close> is set, and
  reading \<open>exitcode\<close> of an absent handle raises.
\<close>

definition should_restart :: "bool \<Rightarrow> string \<Rightarrow> TrunkProcessData \<Rightarrow> error + bool" where
  "should_restart is_cloud platform d =
     (if is_cloud then Inr False
      else if platform \<in> set [''linux'', ''darwin''] then
        (if \<not> restart_on_failure d then Inr False
         else case process d of
                None \<Rightarrow> Inl AttributeError
              | Some p \<Rightarrow> Inr (exitcode p = Some (- SIGKILL)))
      else if max_restart_count d = 0 then Inr False
      else Inr (restart_on_failure d))"

text \<open>
  A descriptor built with the dataclass defaults: \<open>TrunkProcessData(name=nm, ...)\<close> with
  no other field given.
\<close>

definition default_descriptor :: "string \<Rightarrow> TrunkProcessData" where
  "default_descriptor nm =
     \<lparr>name = nm, need_to_run = False, port = None, process = None, started = False,
      args = None, restart_on_failure = False, max_restart_count = 3,
      max_restart_interval_seconds = 60, restart_count = 0, restarts_time = []\<rparr>"

text \<open>
  Successive calls of \<open>request_restart_attempt\<close> on one descriptor, at the given clock
  readings in order; the answers are collected in call order.
\<close>

fun restart_attempts :: "int list \<Rightarrow> TrunkProcessData \<Rightarrow> bool list \<times> TrunkProcessData" where
  "restart_attempts [] d = ([], d)"
| "restart_attempts (t # ts) d =
     (let (b, d') = request_restart_attempt t d;
          (bs, d'') = restart_attempts ts d'
      in (b # bs, d''))"

text \<open>The restart history the descriptor holds after the call, as the specification words it.\<close>

definition history_after :: "int \<Rightarrow> TrunkProcessData \<Rightarrow> int list" where
  "history_after now d =
     (if max_restart_interval_seconds d > 0
      then filter (\<lambda>x. \<not> x < now - max_restart_interval_seconds d) (restarts_time d @ [now])
      else restarts_time d @ [now])"

text \<open>
  Restart eligibility as the specification words it: the flag is set, and either the
  deployment is not hosted, or the exit code is the one of a kill signal on a platform
  where that is told apart.
\<close>

definition restart_eligible_as_claimed :: "bool \<Rightarrow> string \<Rightarrow> TrunkProcessData \<Rightarrow> bool" where
  "restart_eligible_as_claimed is_cloud platform d =
     (restart_on_failure d \<and>
      (\<not> is_cloud \<or>
       ((platform = ''linux'' \<or> platform = ''darwin'') \<and>
        (case process d of None \<Rightarrow> False | Some p \<Rightarrow> exitcode p = Some (- SIGKILL)))))"

section \<open>Orphan reconciliation: the training records\<close>

text \<open>
  The values that the JSON columns of a training record hold.
\<close>

datatype json = JNone | JBool bool | JInt int | JStr string | JList "json list"
  | JDict "(string \<times> json) list"

text \<open>
  Modelled from the spec: the table class \<open>db.Predictor\<close> is declared outside the
  sources shown. The record has the fields that the reconciliation reads and writes: the
  soft-deletion time, the status, the training metadata (a dictionary or nothing, holding
  the process id under \<open>process_id\<close>) and the error-detail field \<open>data\<close>.
\<close>

record Predictor =
  deleted_at :: "int option"
  status :: string
  training_metadata :: "(string \<times> json) list option"
  data :: json

text \<open>
  Modelled from the spec: \<open>db.PREDICTOR_STATUS.COMPLETE\<close> and
  \<open>db.PREDICTOR_STATUS.ERROR\<close>, the two terminal statuses, named \<open>complete\<close> and
  \<open>error\<close> there.
\<close>

definition COMPLETE :: string where
  "COMPLETE = ''complete''"

definition ERROR :: string where
  "ERROR = ''error''"

text \<open>
  The database session: the rows of the table, in the order the query returns them, and
  the number of commits made so far.
\<close>

record db_session =
  predictors :: "Predictor list"
  commits :: nat

text \<open>
  \<open>d[k] = v\<close> on a dictionary kept in insertion order: an entry already there is
  replaced in place, a new one goes to the end.
\<close>

fun dict_set :: "(string \<times> json) list \<Rightarrow> string \<Rightarrow> json \<Rightarrow> (string \<times> json) list" where
  "dict_set [] k v = [(k, v)]"
| "dict_set ((k', v') # kvs) k v =
     (if k' = k then (k, v) # kvs else (k', v') # dict_set kvs k v)"

text \<open>
  \<open>v == k\<close> for a JSON value and an integer, as Python's \<open>in\<close> compares them: a
  boolean is the integer 0 or 1, and no other value equals an integer.
\<close>

fun py_eq_int :: "json \<Rightarrow> int \<Rightarrow> bool" where
  "py_eq_int (JInt n) k = (n = k)"
| "py_eq_int (JBool b) k = ((if b then 1 else 0) = k)"
| "py_eq_int _ k = False"

text \<open>
  \<open>(predictor_record.training_metadata or {}).get('process_id')\<close>
\<close>

definition predictor_process_id :: "Predictor \<Rightarrow> json option" where
  "predictor_process_id r =
     map_of (case training_metadata r of None \<Rightarrow> [] | Some m \<Rightarrow> m) ''process_id''"

text \<open>
  \<open>predictor_process_id in unexisting_pids\<close>; a missing process id is \<open>None\<close>,
  which is in no list of integers.
\<close>

definition process_id_in :: "Predictor \<Rightarrow> int list \<Rightarrow> bool" where
  "process_id_in r unexisting_pids =
     (case predictor_process_id r of
        None \<Rightarrow> False
      | Some v \<Rightarrow> list_ex (py_eq_int v) unexisting_pids)"

text \<open>
  The filter of the query in \<open>set_error_model_status_by_pids\<close>: the record is not
  soft-deleted and its status is neither \<open>COMPLETE\<close> nor \<open>ERROR\<close>.
\<close>

definition unfinished :: "Predictor \<Rightarrow> bool" where
  "unfinished r = (deleted_at r = None \<and> status r \<notin> set [COMPLETE, ERROR])"

text \<open>
  The body of the loop over the records found: the status becomes \<open>ERROR\<close>, a
  \<open>data\<close> that is no dictionary becomes the empty one, and the message is stored
  under \<open>error\<close> unless that key is there already.
\<close>

definition set_error :: "string \<Rightarrow> Predictor \<Rightarrow> Predictor" where
  "set_error msg r =
     (let r1 = r\<lparr>status := ERROR\<rparr>;
          r2 = (case data r1 of JDict kvs \<Rightarrow> r1 | _ \<Rightarrow> r1\<lparr>data := JDict []\<rparr>)
      in case data r2 of
           JDict kvs \<Rightarrow>
             (if map_of kvs ''error'' = None
              then r2\<lparr>data := JDict (dict_set kvs ''error'' (JStr msg))\<rparr>
              else r2)
         | _ \<Rightarrow> r2)"

definition terminated_message :: string where
  "terminated_message = ''The training process was terminated for unknown reasons''"

text \<open>
  \<open>set_error_model_status_by_pids\<close>: every record that the query returns and whose
  process id is among \<open>unexisting_pids\<close> is set to error, with one commit each.
\<close>

definition set_error_model_status_by_pids :: "int list \<Rightarrow> db_session \<Rightarrow> db_session" where
  "set_error_model_status_by_pids unexisting_pids s =
     \<lparr>predictors =
        map (\<lambda>r. if unfinished r \<and> process_id_in r unexisting_pids
                 then set_error terminated_message r else r)
          (predictors s),
      commits = commits s
        + length (filter (\<lambda>r. unfinished r \<and> process_id_in r unexisting_pids) (predictors s))\<rparr>"

text \<open>
  One round of the loop of \<open>do_clean_process_marks\<close>. The list
  \<open>unexisting_pids\<close> is what \<open>clean_unlinked_process_marks()\<close> returned in that
  round; that function is outside the sources shown.
\<close>

definition do_clean_process_marks_tick :: "bool \<Rightarrow> int list \<Rightarrow> db_session \<Rightarrow> db_session" where
  "do_clean_process_marks_tick is_cloud unexisting_pids s =
     (if \<not> is_cloud \<and> length unexisting_pids > 0
      then set_error_model_status_by_pids unexisting_pids s
      else s)"

text \<open>
  \<open>do_clean_process_marks\<close>: the rounds made until the stop event is seen, given by
  what \<open>clean_unlinked_process_marks()\<close> returned in each.
\<close>

fun do_clean_process_marks :: "bool \<Rightarrow> int list list \<Rightarrow> db_session \<Rightarrow> db_session" where
  "do_clean_process_marks is_cloud [] s = s"
| "do_clean_process_marks is_cloud (unexisting_pids # ticks) s =
     do_clean_process_marks is_cloud ticks (do_clean_process_marks_tick is_cloud unexisting_pids s)"

section \<open>Shutdown and monitoring\<close>

text \<open>
  What the supervisor does to the outside, in the order it does it: the calls
  \<open>get_child_pids(pid)\<close>, \<open>os.kill(p, SIGTERM)\<close>, \<open>p.kill()\<close>,
  \<open>process.terminate()\<close>, \<open>process.join()\<close>, \<open>process.start()\<close>,
  \<open>is_pid_listen_port(pid, port)\<close> and \<open>asyncio.sleep(seconds)\<close>, and the log
  lines (their constant part). A call made on a process handle carries the process id
  of the handle, which is \<open>None\<close> for a handle that was never started.
\<close>

datatype action =
    GetChildPids "nat option"
  | OsKill nat
  | ChildKill nat
  | Terminate "nat option"
  | Join "nat option"
  | StartProcess string
  | IsPidListenPort "nat option" "int option"
  | Sleep real
  | LogInfo string
  | LogWarning string
  | LogError string

text \<open>
  The operating system, as the shutdown sees it. \<open>get_child_pids\<close> (from
  \<open>mindsdb.utilities.ps\<close>, outside the sources shown) returns the children of a
  process or raises; \<open>os_kill\<close> and \<open>child_kill\<close> give the exception raised by
  \<open>os.kill(p, SIGTERM)\<close> and by \<open>p.kill()\<close>, if any; \<open>terminate_error\<close> and
  \<open>join_error\<close> give the exception raised by \<open>process.terminate()\<close> and by
  \<open>process.join()\<close> on a started handle, if any; \<open>exit_on_terminate\<close> is the exit
  code a running process reports once terminated and joined.
\<close>

record os =
  get_child_pids :: "nat option \<Rightarrow> error + nat list"
  os_kill :: "nat \<Rightarrow> error option"
  child_kill :: "nat \<Rightarrow> error option"
  terminate_error :: "nat \<Rightarrow> error option"
  join_error :: "nat \<Rightarrow> error option"
  exit_on_terminate :: "nat \<Rightarrow> int"

text \<open>
  The state shared by the monitoring tasks: the module-level \<open>_stop_event\<close> and
  the descriptors, \<open>trunc_processes_struct.values()\<close> in insertion order.
\<close>

record supervisor =
  stop_event :: bool
  trunc_processes_struct :: "TrunkProcessData list"

text \<open>
  How a call ends: it returns, it leaves through \<open>sys.exit\<close>, or an exception
  propagates.
\<close>

datatype outcome = Returned | SysExit int | Raised error

text \<open>
  Modelled from the spec: \<open>get_child_pids(process.pid)\<close> as \<open>close_api_gracefully\<close>
  calls it. The function is outside the sources shown. For a process whose exit the
  handle has collected (processes that have already exited are skipped) it raises
  \<open>NoSuchProcess\<close>: the process id is gone, and process ids are taken not to be
  given out again. For any other handle, what it returns or raises is given by the
  operating system.
\<close>

definition child_pids_of :: "os \<Rightarrow> process \<Rightarrow> error + nat list" where
  "child_pids_of w pr =
     (case exitcode pr of
        Some c \<Rightarrow> Inl NoSuchProcess
      | None \<Rightarrow> get_child_pids w (pid pr))"

text \<open>
  The loop over the children in \<open>close_api_gracefully\<close>. Any
  \<open>Exception\<close> of \<open>os.kill\<close> leads to \<open>p.kill()\<close>; a keyboard interrupt is
  no \<open>Exception\<close> and propagates, as does whatever \<open>p.kill()\<close> raises.
\<close>

fun kill_childs :: "os \<Rightarrow> nat list \<Rightarrow> action list \<times> error option" where
  "kill_childs w [] = ([], None)"
| "kill_childs w (p # ps) =
     (case os_kill w p of
        None \<Rightarrow> (case kill_childs w ps of (ks, e) \<Rightarrow> (OsKill p # ks, e))
      | Some KeyboardInterrupt \<Rightarrow> ([OsKill p], Some KeyboardInterrupt)
      | Some _ \<Rightarrow>
          (case child_kill w p of
             None \<Rightarrow> (case kill_childs w ps of (ks, e) \<Rightarrow> (OsKill p # ChildKill p # ks, e))
           | Some e \<Rightarrow> ([OsKill p, ChildKill p], Some e)))"

text \<open>
  \<open>process.terminate(); process.join()\<close>. On a handle that was never started,
  \<open>terminate()\<close> raises \<open>AttributeError\<close>. On a started handle either call may
  raise what the operating system says; when neither does, a running process gets its
  exit code and an exited one keeps it.
\<close>

definition terminate_join :: "os \<Rightarrow> process \<Rightarrow> action list \<times> (error + process)" where
  "terminate_join w pr =
     (case pid pr of
        None \<Rightarrow> ([Terminate None], Inl AttributeError)
      | Some p \<Rightarrow>
          (case terminate_error w p of
             Some e \<Rightarrow> ([Terminate (Some p)], Inl e)
           | None \<Rightarrow>
               (case join_error w p of
                  Some e \<Rightarrow> ([Terminate (Some p), Join (Some p)], Inl e)
                | None \<Rightarrow>
                    ([Terminate (Some p), Join (Some p)],
                     Inr (case exitcode pr of
                            None \<Rightarrow> pr\<lparr>exitcode := Some (exit_on_terminate w p)\<rparr>
                          | Some c \<Rightarrow> pr)))))"

text \<open>
  \<open>except psutil.NoSuchProcess: pass\<close>
\<close>

definition except_NoSuchProcess :: "error \<Rightarrow> error option" where
  "except_NoSuchProcess e = (if e = NoSuchProcess then None else Some e)"

text \<open>
  The inner \<open>try\<close> of \<open>close_api_gracefully\<close>, for a descriptor that has a
  process handle.
\<close>

definition close_process :: "os \<Rightarrow> process \<Rightarrow> process \<times> action list \<times> error option" where
  "close_process w pr =
     (case child_pids_of w pr of
        Inl e \<Rightarrow> (pr, [GetChildPids (pid pr)], except_NoSuchProcess e)
      | Inr childs \<Rightarrow>
          (case kill_childs w childs of
             (ks, Some e) \<Rightarrow> (pr, GetChildPids (pid pr) # ks, except_NoSuchProcess e)
           | (ks, None) \<Rightarrow>
               (case terminate_join w pr of
                  (ts, Inl e) \<Rightarrow> (pr, GetChildPids (pid pr) # ks @ ts, except_NoSuchProcess e)
                | (ts, Inr pr') \<Rightarrow> (pr', GetChildPids (pid pr) # ks @ ts, None))))"

text \<open>
  The loop over the descriptors: one without a process handle is skipped, and an
  exception that is not swallowed ends the loop.
\<close>

fun close_all :: "os \<Rightarrow> TrunkProcessData list \<Rightarrow> TrunkProcessData list \<times> action list \<times> error option" where
  "close_all w [] = ([], [], None)"
| "close_all w (d # ds) =
     (case process d of
        None \<Rightarrow> (case close_all w ds of (ds', as, e) \<Rightarrow> (d # ds', as, e))
      | Some pr \<Rightarrow>
          (case close_process w pr of
             (pr', as, None) \<Rightarrow>
               (case close_all w ds of
                  (ds', bs, e) \<Rightarrow> (d\<lparr>process := Some pr'\<rparr> # ds', as @ bs, e))
           | (pr', as, Some e) \<Rightarrow> (d\<lparr>process := Some pr'\<rparr> # ds, as, Some e)))"

text \<open>
  \<open>close_api_gracefully\<close>: the stop event is set, then every descriptor is
  visited; a keyboard interrupt during the loop becomes \<open>sys.exit(0)\<close>.
\<close>

definition close_api_gracefully :: "os \<Rightarrow> supervisor \<Rightarrow> supervisor \<times> action list \<times> outcome" where
  "close_api_gracefully w s =
     (case close_all w (trunc_processes_struct s) of
        (ds, as, e) \<Rightarrow>
          (\<lparr>stop_event = True, trunc_processes_struct = ds\<rparr>, as,
           case e of
             None \<Rightarrow> Returned
           | Some KeyboardInterrupt \<Rightarrow> SysExit 0
           | Some x \<Rightarrow> Raised x))"




text \<open>
  What \<open>join_process\<close> reads from outside the descriptors: \<open>config.is_cloud\<close>,
  \<open>sys.platform\<close> and \<open>config.cmd_args.verbose\<close>.
\<close>

record runtime =
  config_is_cloud :: bool
  sys_platform :: string
  cmd_args_verbose :: bool

text \<open>
  How the wait \<open>while process.is_alive(): process.join(1)\<close> ends: the process
  has exited, with the given code, or a keyboard interrupt is raised in the task.
\<close>

datatype wait_result = ProcessExited int | Interrupted

text \<open>
  What one round of the loop of \<open>join_process\<close> meets: the end of the wait, the
  clock at \<open>request_restart_attempt\<close>, the process id that \<open>process.start()\<close>
  gives or the exception it raises, and the answer of \<open>wait_api_start\<close>.
\<close>

record observation =
  wait :: wait_result
  time_seconds :: int
  spawn :: "error + nat"
  listening :: bool

text \<open>
  The round leaves \<open>finish\<close> false, sets it, or is left by an exception or
  \<open>sys.exit\<close>.
\<close>

datatype step = Again | Finished | Aborted outcome

text \<open>
  The \<open>except Exception\<close> part of \<open>start_process\<close>: the failure is logged, all
  services are shut down, and \<open>e\<close> is raised again, unless the shutdown itself is left
  by an exception or by \<open>sys.exit\<close>.
\<close>

definition start_failed :: "os \<Rightarrow> error \<Rightarrow> string \<Rightarrow> supervisor \<Rightarrow> supervisor \<times> action list \<times> outcome" where
  "start_failed w e nm s =
     (case close_api_gracefully w s of
        (s', as, Returned) \<Rightarrow> (s', LogError (''Failed to start '' @ nm @ '' API'') # as, Raised e)
      | (s', as, out) \<Rightarrow> (s', LogError (''Failed to start '' @ nm @ '' API'') # as, out))"

text \<open>
  \<open>start_process\<close>, for the descriptor at index \<open>i\<close> (an index below the number
  of descriptors; the source holds the descriptor itself). The constructor of the
  process handle raises \<open>TypeError\<close> when \<open>args\<close> is \<open>None\<close>, and the descriptor
  keeps the handle it had. Otherwise the new handle is stored on the descriptor before
  \<open>start()\<close> is called: when \<open>start()\<close> raises, the descriptor holds a handle that
  was never started. A keyboard interrupt is no \<open>Exception\<close> and propagates at once.
\<close>

definition start_process :: "os \<Rightarrow> error + nat \<Rightarrow> nat \<Rightarrow> supervisor \<Rightarrow> supervisor \<times> action list \<times> outcome" where
  "start_process w spawned i s =
     (let d = trunc_processes_struct s ! i;
          starting = LogInfo (name d @ '' API: starting...'')
      in case args d of
           None \<Rightarrow>
             (case start_failed w TypeError (name d) s of
                (s', as, out) \<Rightarrow> (s', starting # as, out))
         | Some a \<Rightarrow>
             (case spawned of
                Inr new_pid \<Rightarrow>
                  (s\<lparr>trunc_processes_struct := (trunc_processes_struct s)
                       [i := d\<lparr>process := Some \<lparr>pid = Some new_pid, exitcode = None\<rparr>\<rparr>]\<rparr>,
                   [starting, StartProcess (name d)], Returned)
              | Inl e \<Rightarrow>
                  (let s1 = s\<lparr>trunc_processes_struct := (trunc_processes_struct s)
                              [i := d\<lparr>process := Some \<lparr>pid = None, exitcode = None\<rparr>\<rparr>]\<rparr>
                   in if e = KeyboardInterrupt
                      then (s1, [starting, StartProcess (name d)], Raised KeyboardInterrupt)
                      else (case start_failed w e (name d) s1 of
                              (s', as, out) \<Rightarrow>
                                (s', starting # StartProcess (name d) # as, out)))))"

text \<open>
  The \<open>try\<close> and \<open>except KeyboardInterrupt\<close> part of a round. On a handle that was
  never started \<open>is_alive()\<close> is false at once and nothing is waited for.
\<close>

definition watch :: "os \<Rightarrow> wait_result \<Rightarrow> nat \<Rightarrow> supervisor \<Rightarrow> supervisor \<times> action list \<times> outcome" where
  "watch w r i s =
     (let d = trunc_processes_struct s ! i
      in case process d of
           None \<Rightarrow> (s, [], Raised AttributeError)
         | Some pr \<Rightarrow>
             (if pid pr = None then (s, [], Returned)
              else case r of
                ProcessExited c \<Rightarrow>
                  (s\<lparr>trunc_processes_struct := (trunc_processes_struct s)
                       [i := d\<lparr>process := Some (case exitcode pr of
                                                     None \<Rightarrow> pr\<lparr>exitcode := Some c\<rparr>
                                                   | Some c' \<Rightarrow> pr)\<rparr>]\<rparr>,
                   [], Returned)
              | Interrupted \<Rightarrow>
                  (case close_api_gracefully w s of
                     (s', as, out) \<Rightarrow>
                       (s', LogInfo ''Got keyboard interrupt, stopping APIs'' # as, out))))"

text \<open>
  The warning that \<open>should_restart\<close> logs before it answers false for
  \<open>max_restart_count = 0\<close> on a platform other than linux and darwin.
\<close>

definition should_restart_log :: "bool \<Rightarrow> string \<Rightarrow> TrunkProcessData \<Rightarrow> action list" where
  "should_restart_log is_cloud platform d =
     (if \<not> is_cloud \<and> platform \<notin> set [''linux'', ''darwin''] \<and> max_restart_count d = 0
      then [LogWarning ''In the current OS, it is not possible to use max_restart_count=0'']
      else [])"

text \<open>
  The two log lines for the answer of the health gate, in \<open>wait_apis_start\<close> and in
  \<open>join_process\<close> alike.
\<close>

definition report :: "string \<Rightarrow> bool \<Rightarrow> action" where
  "report api_name ready =
     (if ready then LogInfo (api_name @ '' API: started'')
      else LogError (''ERROR: '' @ api_name @ '' API cant start''))"

text \<open>
  The \<open>finally\<close> part of a round: it runs however the wait ended.
\<close>

definition restart_or_finish :: "runtime \<Rightarrow> os \<Rightarrow> observation \<Rightarrow> nat \<Rightarrow> supervisor \<Rightarrow> supervisor \<times> action list \<times> step" where
  "restart_or_finish cfg w ob i s =
     (let d = trunc_processes_struct s ! i;
          warned = should_restart_log (config_is_cloud cfg) (sys_platform cfg) d
      in case should_restart (config_is_cloud cfg) (sys_platform cfg) d of
           Inl e \<Rightarrow> (s, warned, Aborted (Raised e))
         | Inr False \<Rightarrow> (s, warned @ [LogInfo (name d @ '' API: stopped'')], Finished)
         | Inr True \<Rightarrow>
             (case request_restart_attempt (time_seconds ob) d of
                (False, d') \<Rightarrow>
                  (s\<lparr>trunc_processes_struct := (trunc_processes_struct s)[i := d']\<rparr>,
                   warned @
                   [LogError (''The '' @ name d @ '' process could not restart after failure. ''
                      @ ''There will be no further attempts to restart.'')],
                   Finished)
              | (True, d') \<Rightarrow>
                  (let d'' = d'\<lparr>process := None,
                               args := (if name d' = ''http''
                                        then Some [cmd_args_verbose cfg, True] else args d')\<rparr>;
                       s1 = s\<lparr>trunc_processes_struct := (trunc_processes_struct s)[i := d'']\<rparr>;
                       restarting =
                         warned @ [LogWarning (name d @ '' API: stopped unexpectedly, restarting'')]
                   in case start_process w (spawn ob) i s1 of
                        (s2, as, Returned) \<Rightarrow>
                          (s2, restarting @ as @ [report (name d) (listening ob)], Again)
                      | (s2, as, out) \<Rightarrow> (s2, restarting @ as, Aborted out))))"

text \<open>
  One round of \<open>while not finish\<close>. An exception pending from the wait
  propagates after the \<open>finally\<close> part, unless that part raises itself.
\<close>

definition join_process_iteration :: "runtime \<Rightarrow> os \<Rightarrow> observation \<Rightarrow> nat \<Rightarrow> supervisor \<Rightarrow> supervisor \<times> action list \<times> step" where
  "join_process_iteration cfg w ob i s =
     (case watch w (wait ob) i s of
        (s1, as, pending) \<Rightarrow>
          (case restart_or_finish cfg w ob i s1 of
             (s2, bs, Aborted out) \<Rightarrow> (s2, as @ bs, Aborted out)
           | (s2, bs, st) \<Rightarrow>
               (s2, as @ bs, if pending = Returned then st else Aborted pending)))"

text \<open>
  \<open>join_process\<close> on the rounds given; when they are used up the task is still
  watching.
\<close>

fun join_process :: "runtime \<Rightarrow> os \<Rightarrow> observation list \<Rightarrow> nat \<Rightarrow> supervisor \<Rightarrow> supervisor \<times> action list \<times> step" where
  "join_process cfg w [] i s = (s, [], Again)"
| "join_process cfg w (ob # obs) i s =
     (case join_process_iteration cfg w ob i s of
        (s', as, Again) \<Rightarrow>
          (case join_process cfg w obs i s' of (s'', bs, st) \<Rightarrow> (s'', as @ bs, st))
      | (s', as, st) \<Rightarrow> (s', as, st))"


section \<open>The health gate\<close>








section \<open>Sample inputs\<close>

text \<open>
  The HTTP service with \<open>restart_on_failure\<close> set, running as process \<open>p\<close>.
\<close>

definition serving :: "nat \<Rightarrow> TrunkProcessData" where
  "serving p = (default_descriptor ''http'')\<lparr>need_to_run := True, port := Some 47334,
      process := Some \<lparr>pid = Some p, exitcode = None\<rparr>, restart_on_failure := True\<rparr>"

text \<open>
  An operating system where no process has children, no call raises, and a terminated
  process reports the exit code of SIGTERM.
\<close>

definition quiet_os :: os where
  "quiet_os = \<lparr>get_child_pids = (\<lambda>p. Inr []), os_kill = (\<lambda>p. None),
      child_kill = (\<lambda>p. None), terminate_error = (\<lambda>p. None), join_error = (\<lambda>p. None),
      exit_on_terminate = (\<lambda>p. - 15)\<rparr>"



text \<open>
  A record of a model in training by process 4242.
\<close>

definition training_record :: Predictor where
  "training_record =
     \<lparr>deleted_at = None, status = ''training'',
      training_metadata = Some [(''process_id'', JInt 4242)], data = JNone\<rparr>"

section \<open>The restart rate limit\<close>

subsection \<open>Facts about one call and about runs of calls\<close>

lemma request_restart_attempt_config:
  "max_restart_count (snd (request_restart_attempt t d)) = max_restart_count d"
  "max_restart_interval_seconds (snd (request_restart_attempt t d)) = max_restart_interval_seconds d"
  by (simp_all add: request_restart_attempt_def Let_def)

lemma request_restart_attempt_history:
  "max_restart_count d \<noteq> 0 \<Longrightarrow>
   restarts_time (snd (request_restart_attempt t d)) = history_after t d"
  by (auto simp: request_restart_attempt_def history_after_def Let_def not_less)

lemma restart_attempts_Cons:
  "restart_attempts (t # ts) d =
     (fst (request_restart_attempt t d) # fst (restart_attempts ts (snd (request_restart_attempt t d))),
      snd (restart_attempts ts (snd (request_restart_attempt t d))))"
  by (simp add: case_prod_beta Let_def)

declare restart_attempts.simps(2) [simp del]

lemma restart_attempts_length: "length (fst (restart_attempts ts d)) = length ts"
  by (induction ts arbitrary: d) (simp_all add: restart_attempts_Cons)

lemma restart_attempts_append:
  "restart_attempts (ts @ us) d =
     (fst (restart_attempts ts d) @ fst (restart_attempts us (snd (restart_attempts ts d))),
      snd (restart_attempts us (snd (restart_attempts ts d))))"
  by (induction ts arbitrary: d) (simp_all add: restart_attempts_Cons)

lemma restart_attempts_window_history:
  assumes "max_restart_count d \<noteq> 0" and "0 < max_restart_interval_seconds d"
    and "sorted (restarts_time d @ ts)" and "ts \<noteq> []"
  shows "restarts_time (snd (restart_attempts ts d)) =
           filter (\<lambda>x. last ts - max_restart_interval_seconds d \<le> x) (restarts_time d @ ts)"
  using assms
proof (induction ts arbitrary: d)
  case Nil
  then show ?case by simp
next
  case (Cons t ts)
  let ?W = "max_restart_interval_seconds d"
  let ?d' = "snd (request_restart_attempt t d)"
  have h': "restarts_time ?d' = filter (\<lambda>x. t - ?W \<le> x) (restarts_time d @ [t])"
    using Cons.prems(1,2) by (simp add: request_restart_attempt_history history_after_def not_less)
  show ?case
  proof (cases "ts = []")
    case True
    then show ?thesis using h' by (simp add: restart_attempts_Cons)
  next
    case False
    have srt: "sorted (restarts_time ?d' @ ts)"
      using Cons.prems(3) unfolding h'
      by (auto simp: sorted_append sorted_wrt_filter)
    have le: "t \<le> last ts"
      using Cons.prems(3) False by (auto simp: sorted_append)
    have ih: "restarts_time (snd (restart_attempts ts ?d')) =
            filter (\<lambda>x. last ts - ?W \<le> x) (restarts_time ?d' @ ts)"
      using Cons.IH[of ?d'] Cons.prems(1,2) srt False
      by (simp add: request_restart_attempt_config)
    have "filter (\<lambda>x. last ts - ?W \<le> x) (restarts_time ?d') =
          filter (\<lambda>x. last ts - ?W \<le> x) (restarts_time d @ [t])"
      unfolding h' using le by (auto intro!: filter_cong)
    then show ?thesis using ih False
      by (simp add: restart_attempts_Cons)
  qed
qed

lemma restart_attempts_unbounded_window:
  assumes "max_restart_count d \<noteq> 0" and "max_restart_interval_seconds d \<le> 0"
  shows "restarts_time (snd (restart_attempts ts d)) = restarts_time d @ ts
       \<and> fst (restart_attempts ts d) =
           map (\<lambda>k. int (length (restarts_time d) + Suc k) \<le> max_restart_count d) [0..<length ts]"
  using assms
proof (induction ts arbitrary: d)
  case Nil
  then show ?case by simp
next
  case (Cons t ts)
  let ?d' = "snd (request_restart_attempt t d)"
  have h': "restarts_time ?d' = restarts_time d @ [t]"
    using Cons.prems by (simp add: request_restart_attempt_history history_after_def)
  have b: "fst (request_restart_attempt t d) = (int (Suc (length (restarts_time d))) \<le> max_restart_count d)"
    using Cons.prems by (simp add: request_restart_attempt_def Let_def not_less)
  have ih: "restarts_time (snd (restart_attempts ts ?d')) = restarts_time ?d' @ ts
       \<and> fst (restart_attempts ts ?d') =
           map (\<lambda>k. int (length (restarts_time ?d') + Suc k) \<le> max_restart_count ?d') [0..<length ts]"
    using Cons.IH[of ?d'] Cons.prems by (simp add: request_restart_attempt_config)
  have shift: "[Suc 0..<Suc (length ts)] = map Suc [0..<length ts]"
    by (simp only: map_Suc_upt)
  show ?case
    using ih b h'
    by (simp add: restart_attempts_Cons request_restart_attempt_config upt_conv_Cons shift
          del: upt_Suc)
qed

lemma restart_attempts_config:
  "max_restart_count (snd (restart_attempts ts d)) = max_restart_count d"
  "max_restart_interval_seconds (snd (restart_attempts ts d)) = max_restart_interval_seconds d"
  by (induction ts arbitrary: d) (simp_all add: restart_attempts_Cons request_restart_attempt_config)

lemma request_restart_attempt_answer:
  "max_restart_count d \<noteq> 0 \<Longrightarrow>
   fst (request_restart_attempt t d) =
     (int (length (restarts_time (snd (request_restart_attempt t d)))) \<le> max_restart_count d)"
  by (auto simp: request_restart_attempt_def Let_def)

lemma restart_attempts_snoc:
  "restart_attempts (ts @ [t]) d =
     (fst (restart_attempts ts d) @ [fst (request_restart_attempt t (snd (restart_attempts ts d)))],
      snd (request_restart_attempt t (snd (restart_attempts ts d))))"
  by (simp add: restart_attempts_append restart_attempts_Cons)

lemma window_answer:
  assumes "max_restart_count d \<noteq> 0" and "0 < max_restart_interval_seconds d"
    and "restarts_time d = []" and "sorted (ts @ [t])"
  shows "fst (request_restart_attempt t (snd (restart_attempts ts d))) =
           (int (length (filter (\<lambda>x. t - max_restart_interval_seconds d \<le> x \<and> x \<le> t) (ts @ [t])))
              \<le> max_restart_count d)"
proof -
  let ?d' = "snd (restart_attempts ts d)"
  have "restarts_time (snd (restart_attempts (ts @ [t]) d)) =
          filter (\<lambda>x. t - max_restart_interval_seconds d \<le> x) (ts @ [t])"
    using restart_attempts_window_history[of d "ts @ [t]"] assms by simp
  then have h: "restarts_time (snd (request_restart_attempt t ?d')) =
          filter (\<lambda>x. t - max_restart_interval_seconds d \<le> x) (ts @ [t])"
    by (simp add: restart_attempts_snoc)
  have "\<forall>x\<in>set (ts @ [t]). x \<le> t"
    using assms(4) by (auto simp: sorted_append)
  then have "filter (\<lambda>x. t - max_restart_interval_seconds d \<le> x) (ts @ [t]) =
        filter (\<lambda>x. t - max_restart_interval_seconds d \<le> x \<and> x \<le> t) (ts @ [t])"
    by (intro filter_cong) auto
  with h show ?thesis
    using request_restart_attempt_answer[of ?d' t] assms(1)
    by (simp add: restart_attempts_config)
qed

lemma window_expired:
  assumes "max_restart_count d \<noteq> 0" and "0 < max_restart_interval_seconds d"
    and "restarts_time d = []" and "sorted (ts @ [t] @ us)"
    and "x < t - max_restart_interval_seconds d"
  shows "x \<notin> set (restarts_time (snd (restart_attempts (ts @ [t] @ us) d)))"
proof -
  have "t \<le> last (ts @ [t] @ us)"
    using assms(4) by (cases us rule: rev_cases) (auto simp: sorted_append)
  moreover have "restarts_time (snd (restart_attempts (ts @ [t] @ us) d)) =
      filter (\<lambda>y. last (ts @ [t] @ us) - max_restart_interval_seconds d \<le> y) (ts @ [t] @ us)"
    using restart_attempts_window_history[of d "ts @ [t] @ us"] assms by simp
  ultimately show ?thesis using assms(5) by auto
qed

lemma four_crashes:
  assumes "max_restart_count d = 3" and "max_restart_interval_seconds d = 60"
    and "restarts_time d = []"
    and "t1 \<le> t2" "t2 \<le> t3" "t3 \<le> t4" "t4 \<le> t1 + 10"
  shows "fst (restart_attempts [t1, t2, t3, t4] d) = [True, True, True, False]"
  using assms
  by (simp add: restart_attempts_Cons request_restart_attempt_def Let_def)

subsection \<open>The decision rule\<close>

text \<open>
  C1. For every descriptor, \<open>request_restart_attempt\<close> called at time \<open>now\<close> answers
  true exactly when \<open>max_restart_count\<close> is 0, or the history obtained by appending
  \<open>now\<close> and, when \<open>max_restart_interval_seconds > 0\<close>, dropping the entries older than
  \<open>now - max_restart_interval_seconds\<close>, has length at most \<open>max_restart_count\<close>.
  With \<open>max_restart_count = 0\<close> it answers true for every history.
\<close>

theorem request_restart_attempt_decision:
  "fst (request_restart_attempt now d) =
     (max_restart_count d = 0 \<or> int (length (history_after now d)) \<le> max_restart_count d)
   \<and> fst (request_restart_attempt now (d\<lparr>max_restart_count := 0, restarts_time := h\<rparr>)) = True"
  by (auto simp: request_restart_attempt_def history_after_def Let_def not_less)

theorem request_restart_attempt_decision_witness:
  "fst (request_restart_attempt 100 ((default_descriptor ''http'')\<lparr>restarts_time := [10, 50, 70]\<rparr>))
   \<and> \<not> fst (request_restart_attempt 100
              ((default_descriptor ''http'')\<lparr>restarts_time := [10, 50, 70, 90]\<rparr>))"
  using request_restart_attempt_decision
    [of 100 "(default_descriptor ''http'')\<lparr>restarts_time := [10, 50, 70]\<rparr>" "[]"]
    request_restart_attempt_decision
    [of 100 "(default_descriptor ''http'')\<lparr>restarts_time := [10, 50, 70, 90]\<rparr>" "[]"]
  by (simp add: history_after_def default_descriptor_def)

text \<open>
  C4. The claim that every call records the attempt fails for \<open>max_restart_count = 0\<close>:
  the method returns before the append, and the history stays as it was.
\<close>

theorem request_restart_attempt_unlimited_not_recorded:
  "restarts_time (snd (request_restart_attempt 100
      ((default_descriptor ''http'')\<lparr>max_restart_count := 0\<rparr>))) = []"
  by (simp add: request_restart_attempt_def default_descriptor_def)

text \<open>
  C4, as amended. Every call made with \<open>max_restart_count \<noteq> 0\<close>, the first one
  included, records the attempt: after the call the history is the old one with \<open>now\<close>
  appended and the expired entries dropped, and \<open>now\<close> is its last entry.
  A call made with \<open>max_restart_count = 0\<close> leaves the descriptor as it was.
\<close>

theorem request_restart_attempt_records:
  "(max_restart_count d \<noteq> 0 \<longrightarrow>
      restarts_time (snd (request_restart_attempt now d)) = history_after now d
      \<and> restarts_time (snd (request_restart_attempt now d)) \<noteq> []
      \<and> last (restarts_time (snd (request_restart_attempt now d))) = now)
   \<and> (max_restart_count d = 0 \<longrightarrow> snd (request_restart_attempt now d) = d)"
  by (auto simp: request_restart_attempt_def history_after_def Let_def not_less)

theorem request_restart_attempt_records_witness:
  "restarts_time (snd (request_restart_attempt 100
      ((default_descriptor ''http'')\<lparr>restarts_time := [10, 50]\<rparr>))) = [50, 100]
   \<and> snd (request_restart_attempt 100
      ((default_descriptor ''http'')\<lparr>max_restart_count := 0, restarts_time := [10, 50]\<rparr>)) =
      (default_descriptor ''http'')\<lparr>max_restart_count := 0, restarts_time := [10, 50]\<rparr>"
  using request_restart_attempt_records
    [of "(default_descriptor ''http'')\<lparr>restarts_time := [10, 50]\<rparr>" 100]
    request_restart_attempt_records
    [of "(default_descriptor ''http'')\<lparr>max_restart_count := 0, restarts_time := [10, 50]\<rparr>" 100]
  by (simp add: history_after_def default_descriptor_def)

subsection \<open>The sliding window\<close>

text \<open>
  C5. Take a descriptor with \<open>max_restart_count = N > 0\<close> and an empty history, and
  let \<open>request_restart_attempt\<close> be called at the clock readings \<open>ts\<close>, in
  chronological order. With a window \<open>W = max_restart_interval_seconds > 0\<close>, a call
  at time \<open>t\<close> is answered by counting the attempts within \<open>[t - W, t]\<close> only, and
  an attempt older than \<open>t - W\<close> is in no later history. With \<open>W = 0\<close> every
  attempt counts: call number \<open>k + 1\<close> is answered true exactly when \<open>k + 1 \<le> N\<close>,
  so call \<open>N + 1\<close> and all later ones are denied. With \<open>N = 3\<close>, \<open>W = 60\<close>
  and four attempts within 10 seconds the answers are true, true, true, false.
\<close>

theorem restart_window_counts:
  assumes "max_restart_count d = N" and "0 < N" and "restarts_time d = []"
  shows "(0 < max_restart_interval_seconds d \<and> sorted (ts @ [t]) \<longrightarrow>
            fst (request_restart_attempt t (snd (restart_attempts ts d))) =
              (int (length (filter (\<lambda>x. t - max_restart_interval_seconds d \<le> x \<and> x \<le> t)
                      (ts @ [t]))) \<le> N))
       \<and> (0 < max_restart_interval_seconds d \<and> sorted (ts @ [t] @ us) \<longrightarrow>
            (\<forall>x. x < t - max_restart_interval_seconds d \<longrightarrow>
               x \<notin> set (restarts_time (snd (restart_attempts (ts @ [t] @ us) d)))))
       \<and> (max_restart_interval_seconds d = 0 \<longrightarrow>
            fst (restart_attempts ts d) = map (\<lambda>k. int (Suc k) \<le> N) [0..<length ts])
       \<and> (N = 3 \<and> max_restart_interval_seconds d = 60 \<and>
            t1 \<le> t2 \<and> t2 \<le> t3 \<and> t3 \<le> t4 \<and> t4 \<le> t1 + 10 \<longrightarrow>
            fst (restart_attempts [t1, t2, t3, t4] d) = [True, True, True, False])"
proof -
  have nz: "max_restart_count d \<noteq> 0" using assms by simp
  have a: "0 < max_restart_interval_seconds d \<and> sorted (ts @ [t]) \<longrightarrow>
            fst (request_restart_attempt t (snd (restart_attempts ts d))) =
              (int (length (filter (\<lambda>x. t - max_restart_interval_seconds d \<le> x \<and> x \<le> t)
                      (ts @ [t]))) \<le> N)"
    using window_answer[OF nz _ assms(3)] assms(1) by blast
  have b: "0 < max_restart_interval_seconds d \<and> sorted (ts @ [t] @ us) \<longrightarrow>
            (\<forall>x. x < t - max_restart_interval_seconds d \<longrightarrow>
               x \<notin> set (restarts_time (snd (restart_attempts (ts @ [t] @ us) d))))"
    using window_expired[OF nz _ assms(3)] by blast
  have c: "max_restart_interval_seconds d = 0 \<longrightarrow>
            fst (restart_attempts ts d) = map (\<lambda>k. int (Suc k) \<le> N) [0..<length ts]"
    using restart_attempts_unbounded_window[OF nz, of ts] assms(1,3) by simp
  have e: "N = 3 \<and> max_restart_interval_seconds d = 60 \<and>
            t1 \<le> t2 \<and> t2 \<le> t3 \<and> t3 \<le> t4 \<and> t4 \<le> t1 + 10 \<longrightarrow>
            fst (restart_attempts [t1, t2, t3, t4] d) = [True, True, True, False]"
    using four_crashes[of d t1 t2 t3 t4] assms(1,3) by blast
  from a b c e show ?thesis by blast
qed

theorem restart_window_counts_witness:
  "fst (request_restart_attempt 10 (snd (restart_attempts [0, 3, 6] (default_descriptor ''http''))))
     = False
   \<and> 0 \<notin> set (restarts_time (snd (restart_attempts [0, 3, 6, 100, 200]
                (default_descriptor ''http''))))
   \<and> fst (restart_attempts [5, 5, 5, 5, 5]
           ((default_descriptor ''http'')\<lparr>max_restart_interval_seconds := 0\<rparr>))
       = [True, True, True, False, False]
   \<and> fst (restart_attempts [0, 3, 6, 10] (default_descriptor ''http''))
       = [True, True, True, False]"
  using restart_window_counts
    [where d = "default_descriptor ''http''" and N = 3 and ts = "[0, 3, 6]" and t = 10
       and us = "[]" and ?t1.0 = 0 and ?t2.0 = 3 and ?t3.0 = 6 and ?t4.0 = 10]
    restart_window_counts
    [where d = "default_descriptor ''http''" and N = 3 and ts = "[0, 3, 6]" and t = 100
       and us = "[200]" and ?t1.0 = 0 and ?t2.0 = 3 and ?t3.0 = 6 and ?t4.0 = 10]
    restart_window_counts
    [where d = "(default_descriptor ''http'')\<lparr>max_restart_interval_seconds := 0\<rparr>"
       and N = 3 and ts = "[5, 5, 5, 5, 5]" and t = 5
       and us = "[]" and ?t1.0 = 0 and ?t2.0 = 3 and ?t3.0 = 6 and ?t4.0 = 10]
  by (simp add: default_descriptor_def upt_conv_Cons del: upt_Suc)

section \<open>Restart eligibility\<close>

text \<open>
  C2. The claim reads: restart-eligible exactly when \<open>restart_on_failure\<close> is set and
  either the platform is not hosted or the exit code is the one of a kill signal on linux
  or darwin (\<open>restart_eligible_as_claimed\<close>). It fails on a local linux installation
  whose process exits with code 1: the claim makes it eligible, the code does not.
\<close>

theorem should_restart_not_as_claimed:
  "should_restart False ''linux''
     ((default_descriptor ''http'')\<lparr>process := Some \<lparr>pid = Some 4242, exitcode = Some 1\<rparr>,
        restart_on_failure := True\<rparr>) = Inr False
   \<and> restart_eligible_as_claimed False ''linux''
     ((default_descriptor ''http'')\<lparr>process := Some \<lparr>pid = Some 4242, exitcode = Some 1\<rparr>,
        restart_on_failure := True\<rparr>)"
  by (simp add: should_restart_def restart_eligible_as_claimed_def default_descriptor_def
        SIGKILL_def)

text \<open>
  C2, as amended. \<open>should_restart\<close> is true exactly when \<open>restart_on_failure\<close> is
  set, the platform is not hosted, and: on linux and darwin, the process exited with the
  code of a kill signal; on every other platform, \<open>max_restart_count\<close> is not 0.
\<close>

theorem should_restart_eligibility:
  "(should_restart is_cloud platform d = Inr True) =
     (restart_on_failure d \<and> \<not> is_cloud \<and>
      (if platform = ''linux'' \<or> platform = ''darwin''
       then \<exists>p. process d = Some p \<and> exitcode p = Some (- SIGKILL)
       else max_restart_count d \<noteq> 0))"
  by (auto simp: should_restart_def split: option.splits)

theorem should_restart_eligibility_witness:
  "should_restart False ''linux''
     ((default_descriptor ''http'')\<lparr>process := Some \<lparr>pid = Some 4242, exitcode = Some (- 9)\<rparr>,
        restart_on_failure := True\<rparr>) = Inr True
   \<and> should_restart False ''win32''
     ((default_descriptor ''http'')\<lparr>restart_on_failure := True\<rparr>) = Inr True"
  using should_restart_eligibility
    [of False "''linux''"
       "(default_descriptor ''http'')\<lparr>process := Some \<lparr>pid = Some 4242, exitcode = Some (- 9)\<rparr>,
        restart_on_failure := True\<rparr>"]
    should_restart_eligibility
    [of False "''win32''" "(default_descriptor ''http'')\<lparr>restart_on_failure := True\<rparr>"]
  by (simp add: default_descriptor_def SIGKILL_def)

text \<open>
  C8. The claim fails in a hosted deployment: on a platform other than linux and darwin,
  with \<open>max_restart_count = 3\<close> and \<open>restart_on_failure\<close> set, the answer is false,
  not \<open>restart_on_failure\<close>.
\<close>

theorem should_restart_other_platform_hosted:
  "should_restart True ''win32'' ((default_descriptor ''http'')\<lparr>restart_on_failure := True\<rparr>)
     = Inr False
   \<and> 0 < max_restart_count ((default_descriptor ''http'')\<lparr>restart_on_failure := True\<rparr>)
   \<and> restart_on_failure ((default_descriptor ''http'')\<lparr>restart_on_failure := True\<rparr>)"
  by (simp add: should_restart_def default_descriptor_def)

text \<open>
  C8, as amended. In a deployment that is not hosted, on a platform that is neither linux
  nor darwin, \<open>should_restart\<close> is \<open>restart_on_failure\<close> when
  \<open>max_restart_count > 0\<close>, and false when \<open>max_restart_count = 0\<close>.
\<close>

theorem should_restart_other_platform:
  assumes "platform \<noteq> ''linux''" and "platform \<noteq> ''darwin''" and "\<not> is_cloud"
  shows "(0 < max_restart_count d \<longrightarrow>
            should_restart is_cloud platform d = Inr (restart_on_failure d))
       \<and> (max_restart_count d = 0 \<longrightarrow> should_restart is_cloud platform d = Inr False)"
  using assms by (simp add: should_restart_def)

theorem should_restart_other_platform_witness:
  "should_restart False ''win32'' ((default_descriptor ''http'')\<lparr>restart_on_failure := True\<rparr>)
     = Inr True
   \<and> should_restart False ''win32''
       ((default_descriptor ''http'')\<lparr>restart_on_failure := True, max_restart_count := 0\<rparr>)
     = Inr False"
  using should_restart_other_platform
    [of "''win32''" False "(default_descriptor ''http'')\<lparr>restart_on_failure := True\<rparr>"]
    should_restart_other_platform
    [of "''win32''" False
       "(default_descriptor ''http'')\<lparr>restart_on_failure := True, max_restart_count := 0\<rparr>"]
  by (simp add: default_descriptor_def)

text \<open>
  C10. In a hosted deployment \<open>should_restart\<close> is false for every descriptor, every
  platform and every exit code.
\<close>

theorem should_restart_hosted: "should_restart True platform d = Inr False"
  by (simp add: should_restart_def)

section \<open>Graceful shutdown\<close>






















section \<open>Monitoring\<close>

lemma start_process_failure:
  "start_process quiet_os (Inl OtherException) 0
     \<lparr>stop_event = False, trunc_processes_struct =
        [(serving 100)\<lparr>process := None, args := Some [False, True]\<rparr>]\<rparr> =
   (\<lparr>stop_event = True, trunc_processes_struct =
        [(serving 100)\<lparr>process := Some \<lparr>pid = None, exitcode = None\<rparr>,
           args := Some [False, True]\<rparr>]\<rparr>,
    [LogInfo ''http API: starting...'', StartProcess ''http'',
     LogError ''Failed to start http API'', GetChildPids None, Terminate None],
    Raised AttributeError)"
  by (simp add: start_process_def start_failed_def close_api_gracefully_def close_process_def
        child_pids_of_def terminate_join_def except_NoSuchProcess_def quiet_os_def serving_def
        default_descriptor_def Let_def)

text \<open>
  C6. On a local installation on a platform other than linux and darwin, a keyboard
  interrupt during the wait for the HTTP service, which has \<open>restart_on_failure\<close> set:
  the services are shut down, and then the \<open>finally\<close> part asks
  \<open>should_restart\<close> and \<open>request_restart_attempt\<close> and starts the service again;
  the task goes on watching the new process.
\<close>

theorem join_process_restarts_after_interrupt:
  "join_process
     \<lparr>config_is_cloud = False, sys_platform = ''win32'', cmd_args_verbose = False\<rparr>
     quiet_os
     [\<lparr>wait = Interrupted, time_seconds = 1000, spawn = Inr 200, listening = True\<rparr>]
     0 \<lparr>stop_event = False, trunc_processes_struct = [serving 100]\<rparr> =
   (\<lparr>stop_event = True, trunc_processes_struct =
       [(serving 200)\<lparr>args := Some [False, True], restarts_time := [1000]\<rparr>]\<rparr>,
    [LogInfo ''Got keyboard interrupt, stopping APIs'',
     GetChildPids (Some 100), Terminate (Some 100), Join (Some 100),
     LogWarning ''http API: stopped unexpectedly, restarting'',
     LogInfo ''http API: starting...'', StartProcess ''http'',
     LogInfo ''http API: started''],
    Again)"
  by (simp add: join_process_iteration_def watch_def restart_or_finish_def
        close_api_gracefully_def close_process_def child_pids_of_def terminate_join_def
        quiet_os_def should_restart_def should_restart_log_def request_restart_attempt_def
        start_process_def report_def serving_def default_descriptor_def Let_def)

section \<open>The health gate: polling and reporting\<close>















section \<open>Orphan reconciliation\<close>

lemma dict_set_lookup: "map_of (dict_set kvs k v) k = Some v"
  by (induction kvs) auto

lemma set_error_status: "status (set_error msg r) = ERROR"
  by (auto simp: set_error_def Let_def split: json.splits)

lemma set_error_not_unfinished: "\<not> unfinished (set_error msg r)"
  by (simp add: unfinished_def set_error_status)

lemma set_error_data:
  "data (set_error msg r) =
     (case data r of
        JDict kvs \<Rightarrow> (if map_of kvs ''error'' = None
                      then JDict (dict_set kvs ''error'' (JStr msg)) else JDict kvs)
      | _ \<Rightarrow> JDict [(''error'', JStr msg)])"
  by (auto simp: set_error_def Let_def split: json.splits)

lemma sweep_idem:
  "set_error_model_status_by_pids pids (set_error_model_status_by_pids pids s) =
     set_error_model_status_by_pids pids s"
proof -
  let ?sel = "\<lambda>r. unfinished r \<and> process_id_in r pids"
  let ?f = "\<lambda>r. if ?sel r then set_error terminated_message r else r"
  have nosel: "\<not> ?sel (?f r)" for r
    by (simp add: set_error_not_unfinished)
  then have "filter ?sel (map ?f xs) = []" for xs
    by (induction xs) (auto simp: set_error_not_unfinished)
  moreover have "map ?f (map ?f xs) = map ?f xs" for xs
    using nosel by (induction xs) (auto simp: set_error_not_unfinished)
  ultimately show ?thesis
    by (simp add: set_error_model_status_by_pids_def)
qed

lemma process_id_in_nonempty: "process_id_in r pids \<Longrightarrow> 0 < length pids"
  by (cases pids) (auto simp: process_id_in_def split: option.splits)

lemma tick_length:
  "length (predictors (do_clean_process_marks_tick is_cloud pids s)) = length (predictors s)"
  by (simp add: do_clean_process_marks_tick_def set_error_model_status_by_pids_def)

lemma tick_keeps_finished:
  "i < length (predictors s) \<Longrightarrow> \<not> unfinished (predictors s ! i) \<Longrightarrow>
   predictors (do_clean_process_marks_tick is_cloud pids s) ! i = predictors s ! i"
  by (simp add: do_clean_process_marks_tick_def set_error_model_status_by_pids_def)

lemma ticks_keep_finished:
  "i < length (predictors s) \<Longrightarrow> \<not> unfinished (predictors s ! i) \<Longrightarrow>
   predictors (do_clean_process_marks is_cloud ticks s) ! i = predictors s ! i"
proof (induction ticks arbitrary: s)
  case Nil
  then show ?case by simp
next
  case (Cons pids ticks)
  let ?s' = "do_clean_process_marks_tick is_cloud pids s"
  have "predictors ?s' ! i = predictors s ! i"
    using Cons.prems by (rule tick_keeps_finished)
  moreover have "i < length (predictors ?s')"
    using Cons.prems(1) by (simp add: tick_length)
  ultimately show ?case
    using Cons.IH[of ?s'] Cons.prems(2) by simp
qed

lemma tick_orphan:
  assumes "\<not> is_cloud" and "i < length (predictors s)"
    and "unfinished (predictors s ! i)" and "process_id_in (predictors s ! i) pids"
  shows "predictors (do_clean_process_marks_tick is_cloud pids s) ! i =
           set_error terminated_message (predictors s ! i)"
  using assms process_id_in_nonempty[OF assms(4)]
  by (simp add: do_clean_process_marks_tick_def set_error_model_status_by_pids_def)

lemma tick_idem:
  "do_clean_process_marks_tick is_cloud pids (do_clean_process_marks_tick is_cloud pids s) =
     do_clean_process_marks_tick is_cloud pids s"
  by (simp add: do_clean_process_marks_tick_def sweep_idem)

lemma set_error_has_message:
  "\<exists>kvs e. data (set_error msg r) = JDict kvs \<and> map_of kvs ''error'' = Some e"
  by (auto simp: set_error_data dict_set_lookup split: json.splits)

text \<open>
  C7. The claim fails for a record that is soft-deleted, and in a hosted deployment: a
  record in training whose process id is reported as gone keeps its status.
\<close>

theorem orphan_reconciliation_skips:
  "status (predictors (do_clean_process_marks_tick False [4242]
      \<lparr>predictors = [training_record\<lparr>deleted_at := Some 1700000000\<rparr>], commits = 0\<rparr>) ! 0)
     = ''training''
   \<and> status (predictors (do_clean_process_marks_tick True [4242]
      \<lparr>predictors = [training_record], commits = 0\<rparr>) ! 0) = ''training''
   \<and> process_id_in training_record [4242]"
  by (simp add: training_record_def COMPLETE_def ERROR_def process_id_in_def
        predictor_process_id_def do_clean_process_marks_tick_def
        set_error_model_status_by_pids_def unfinished_def)

text \<open>
  C7, as amended. In a deployment that is not hosted, for every record that is not
  soft-deleted, whose status is neither \<open>complete\<close> nor \<open>error\<close> and whose process
  id is among the orphaned ones, one round sets the status to \<open>error\<close> and leaves an
  entry under \<open>error\<close> in its data: the default message, which is not empty, where
  there was none, and the entry already there otherwise. A second round with the same
  orphans changes nothing at all, and no later round changes the record again, since
  records with status \<open>error\<close> are not returned by the query.
\<close>

theorem orphan_reconciliation:
  assumes "\<not> is_cloud" and "i < length (predictors s)"
    and "deleted_at (predictors s ! i) = None"
    and "status (predictors s ! i) \<noteq> COMPLETE" and "status (predictors s ! i) \<noteq> ERROR"
    and "process_id_in (predictors s ! i) pids"
  shows "status (predictors (do_clean_process_marks_tick is_cloud pids s) ! i) = ERROR
       \<and> data (predictors (do_clean_process_marks_tick is_cloud pids s) ! i) =
           (case data (predictors s ! i) of
              JDict kvs \<Rightarrow>
                (if map_of kvs ''error'' = None
                 then JDict (dict_set kvs ''error'' (JStr terminated_message))
                 else JDict kvs)
            | _ \<Rightarrow> JDict [(''error'', JStr terminated_message)])
       \<and> (\<exists>kvs e. data (predictors (do_clean_process_marks_tick is_cloud pids s) ! i) = JDict kvs
              \<and> map_of kvs ''error'' = Some e)
       \<and> terminated_message \<noteq> []
       \<and> do_clean_process_marks_tick is_cloud pids (do_clean_process_marks_tick is_cloud pids s) =
           do_clean_process_marks_tick is_cloud pids s
       \<and> predictors (do_clean_process_marks is_cloud ticks
                        (do_clean_process_marks_tick is_cloud pids s)) ! i =
           predictors (do_clean_process_marks_tick is_cloud pids s) ! i"
proof -
  let ?s' = "do_clean_process_marks_tick is_cloud pids s"
  have unf: "unfinished (predictors s ! i)"
    using assms(3,4,5) by (simp add: unfinished_def)
  have r': "predictors ?s' ! i = set_error terminated_message (predictors s ! i)"
    using assms(1,2) unf assms(6) by (rule tick_orphan)
  have fin: "\<not> unfinished (predictors ?s' ! i)"
    unfolding r' by (rule set_error_not_unfinished)
  have len: "i < length (predictors ?s')"
    using assms(2) by (simp add: tick_length)
  have later: "predictors (do_clean_process_marks is_cloud ticks ?s') ! i = predictors ?s' ! i"
    using len fin by (rule ticks_keep_finished)
  have msg: "terminated_message \<noteq> []"
    by (simp add: terminated_message_def)
  show ?thesis
    using later msg set_error_has_message[of terminated_message "predictors s ! i"]
    by (simp add: r' set_error_status set_error_data tick_idem)
qed

theorem orphan_reconciliation_witness:
  "predictors (do_clean_process_marks_tick False [4242]
      \<lparr>predictors = [training_record], commits = 0\<rparr>) ! 0 =
     \<lparr>deleted_at = None, status = ''error'',
      training_metadata = Some [(''process_id'', JInt 4242)],
      data = JDict [(''error'', JStr ''The training process was terminated for unknown reasons'')]\<rparr>"
  using orphan_reconciliation
    [of False 0 "\<lparr>predictors = [training_record], commits = 0\<rparr>" "[4242]" "[]"]
  by (simp add: training_record_def COMPLETE_def ERROR_def process_id_in_def
        predictor_process_id_def do_clean_process_marks_tick_def
        set_error_model_status_by_pids_def unfinished_def set_error_def terminated_message_def)

end
